theory Spec2Isabelle
  imports Complex_Main "HOL-Library.Word" "HOL-Library.Monad_Syntax"
begin

section \<open>DFU back-end for MMC: data model\<close>

text \<open>
  A shallow embedding of \<^verbatim>\<open>drivers/dfu/dfu_mmc.c\<close>. The file is written for 32-bit
  targets (it prints a pointer through \<^verbatim>\<open>(unsigned int)buf\<close>): \<^verbatim>\<open>u32\<close> and
  \<^verbatim>\<open>unsigned int\<close> are 32-bit words whose arithmetic wraps, \<^verbatim>\<open>u64\<close> is a 64-bit word.
  A \<^verbatim>\<open>long\<close> has 32 bits as well. Its values are written as \<open>int\<close>s, and every \<^verbatim>\<open>long\<close>
  result goes through \<open>long_of\<close>, the two's-complement wrap-around: signed overflow is
  undefined in C, and the wrap is what these targets compute. Where a \<^verbatim>\<open>long\<close> meets an
  unsigned operand the conversion is written out (\<open>ulong\<close>).
  Return codes are the negated errno values of the source.
\<close>

type_synonym u8 = "8 word"
type_synonym u32 = "32 word"
type_synonym u64 = "64 word"

definition EIO :: int where "EIO = 5"
definition ENODEV :: int where "ENODEV = 19"
definition EINVAL :: int where "EINVAL = 22"

datatype dfu_op = DFU_OP_READ | DFU_OP_WRITE | DFU_OP_SIZE

text \<open>
  The layouts this file names; \<open>DFU_LAYOUT_OTHER\<close> stands for every other tag of
  \<^verbatim>\<open>enum dfu_layout\<close>, which the source handles in its \<^verbatim>\<open>default:\<close> branches.
\<close>

datatype dfu_layout = DFU_RAW_ADDR | DFU_FS_FAT | DFU_FS_EXT4 | DFU_LAYOUT_OTHER

datatype dfu_device_type = DFU_DEV_NONE | DFU_DEV_MMC

text \<open>
  \<^verbatim>\<open>struct dfu_entity\<close> with the fields of \<^verbatim>\<open>data.mmc\<close> flattened into it
  (\<open>mmc_dev\<close> and \<open>mmc_part\<close> are \<^verbatim>\<open>data.mmc.dev\<close> and \<^verbatim>\<open>data.mmc.part\<close>). The struct is
  declared in \<^verbatim>\<open>dfu.h\<close>; the fields here are the ones \<^verbatim>\<open>dfu_mmc.c\<close> uses, typed as it uses
  them: the three LBA fields are unsigned 32-bit values, like the \<^verbatim>\<open>u32\<close> locals computed
  from them, and \<open>hw_partition\<close> is a signed \<^verbatim>\<open>int\<close>, which holds \<open>-EINVAL\<close> and is tested
  with \<^verbatim>\<open>>= 0\<close>. The four handler pointers that \<^verbatim>\<open>dfu_fill_entity_mmc\<close> stores are the
  functions of this theory and are not fields.
\<close>

record dfu_entity =
  name :: string
  dev_type :: dfu_device_type
  dev_num :: int
  layout :: dfu_layout
  lba_start :: u32
  lba_size :: u32
  lba_blk_size :: u32
  hw_partition :: int
  mmc_dev :: u32
  mmc_part :: u32
  inited :: int

text \<open>
  \<^verbatim>\<open>struct mmc\<close> of \<^verbatim>\<open>mmc.h\<close>: the fields this file reads and writes. \<open>part_num\<close> has the
  type of the \<^verbatim>\<open>int\<close> values it is compared with and assigned from.
\<close>

record mmc =
  part_num :: int
  read_bl_len :: u32

text \<open>A \<^verbatim>\<open>void *buf\<close>: the address and the bytes it points to.\<close>

record cbuf =
  buf_addr :: u32
  buf_data :: "u8 list"

text \<open>
  The fields of \<^verbatim>\<open>disk_partition_t\<close> that are read (\<open>size_blocks\<close> is its \<^verbatim>\<open>size\<close>), at the
  width of the entity fields they are stored into.
\<close>

record disk_partition =
  start :: u32
  size_blocks :: u32
  blksz :: u32

text \<open>
  The calls that leave this file. Each event records the arguments and what the callee
  returned; the model appends one event per call, so the trace tells which capabilities a
  run invoked.
\<close>

datatype event =
    EvSwitchPart int int int
  | EvBlockRead int u32 u32 u32
  | EvBlockWrite int u32 u32 u32
  | EvRunCommand string int
  | EvGetenv string
  | EvMmcInit int int
  | EvPartInfo int int

text \<open>
  The platform: the two build-time constants the file uses (the capacity of the staging
  buffer and the address the linker gives it), and the external capabilities as
  functions over a state \<open>'w\<close> of the hardware and the environment behind them: the
  partition switch, the block device's operations, device initialisation, the partition
  table lookup, the command interpreter and its environment variables.
\<close>

record 'w env =
  CONFIG_SYS_DFU_MAX_FILE_SIZE :: nat
  dfu_file_buf_addr :: u32
  mmc_switch_part :: "int \<Rightarrow> int \<Rightarrow> 'w \<Rightarrow> int \<times> 'w"
  block_read :: "int \<Rightarrow> u32 \<Rightarrow> u32 \<Rightarrow> u8 list \<Rightarrow> 'w \<Rightarrow> (u32 \<times> u8 list) \<times> 'w"
  block_write :: "int \<Rightarrow> u32 \<Rightarrow> u32 \<Rightarrow> u8 list \<Rightarrow> 'w \<Rightarrow> u32 \<times> 'w"
  mmc_init :: "int \<Rightarrow> mmc \<Rightarrow> 'w \<Rightarrow> (int \<times> mmc) \<times> 'w"
  get_partition_info :: "int \<Rightarrow> int \<Rightarrow> 'w \<Rightarrow> disk_partition option \<times> 'w"
  run_command :: "string \<Rightarrow> 'w \<Rightarrow> int \<times> 'w"
  getenv :: "string \<Rightarrow> 'w \<Rightarrow> string option"

text \<open>
  The state the file works on: the table of MMC devices (\<^verbatim>\<open>find_mmc_device\<close> looks a
  device number up; \<open>None\<close> is \<^verbatim>\<open>NULL\<close>), the static staging buffer and its length, the
  state behind the capabilities, and the trace.
\<close>

record 'w sys =
  mmcs :: "int \<Rightarrow> mmc option"
  dfu_file_buf :: "u8 list"
  dfu_file_buf_len :: int
  world :: 'w
  trace :: "event list"

definition find_mmc_device :: "'w sys \<Rightarrow> int \<Rightarrow> mmc option" where
  "find_mmc_device s d = mmcs s d"

section \<open>Raw block access\<close>

text \<open>
  Functions that can fault (a \<^verbatim>\<open>NULL\<close> device pointer is dereferenced, a block size of 0
  is divided by) return an option: \<open>None\<close> is the fault, after which nothing is returned.
\<close>

text \<open>
  \<^verbatim>\<open>mmc_access_part\<close>. The \<^verbatim>\<open>mmc\<close> argument of the source is always
  \<^verbatim>\<open>find_mmc_device(dfu->dev_num)\<close>; the model looks it up.
\<close>

definition mmc_access_part :: "'w env \<Rightarrow> dfu_entity \<Rightarrow> int \<Rightarrow> 'w sys \<Rightarrow> (int \<times> 'w sys) option" where
  "mmc_access_part e dfu partno s =
     (case find_mmc_device s (dev_num dfu) of
        None \<Rightarrow> None
      | Some m \<Rightarrow>
          if partno = part_num m then Some (0, s)
          else
            (let (ret, w) = mmc_switch_part e (dev_num dfu) partno (world s);
                 s1 = s\<lparr>world := w,
                        trace := trace s @ [EvSwitchPart (dev_num dfu) partno ret]\<rparr>
             in if ret \<noteq> 0 then Some (ret, s1)
                else Some (0, s1\<lparr>mmcs := (mmcs s1)(dev_num dfu \<mapsto> m\<lparr>part_num := partno\<rparr>)\<rparr>)))"

text \<open>
  Modelled from the spec: the \<^verbatim>\<open>ALIGN\<close> macro, which a header defines and
  \<^verbatim>\<open>dfu_mmc.c\<close> only uses; the spec says "round length up to the nearest multiple of
  lba_blk_size".
\<close>

definition ALIGN :: "int \<Rightarrow> u32 \<Rightarrow> int" where
  "ALIGN x a = ((x + uint a - 1) div uint a) * uint a"

text \<open>
  Modelled from the spec: \<^verbatim>\<open>lldiv\<close> of \<^verbatim>\<open>div64.h\<close>, the 64-bit quotient
  \<open>floor(offset / lba_blk_size)\<close>.
\<close>

definition lldiv :: "u64 \<Rightarrow> u32 \<Rightarrow> u64" where
  "lldiv dividend divisor = dividend div ucast divisor"

text \<open>
  The value a 32-bit \<^verbatim>\<open>long\<close> holds after a computation whose exact result is \<open>x\<close>:
  \<open>x\<close> itself from \<open>-2^31\<close> up to \<open>2^31 - 1\<close>, and wrapped into that range otherwise.
\<close>

definition long_of :: "int \<Rightarrow> int" where
  "long_of x = (x + 2 ^ 31) mod 2 ^ 32 - 2 ^ 31"

text \<open>
  A \<^verbatim>\<open>long\<close> operand meeting an \<^verbatim>\<open>unsigned int\<close> one is converted to \<^verbatim>\<open>unsigned long\<close>
  (32 bits here).
\<close>

definition ulong :: "int \<Rightarrow> u32" where
  "ulong x = word_of_int x"

text \<open>
  The two locals of \<^verbatim>\<open>mmc_block_op\<close>: \<open>blk_start\<close> from the offset, with the cast to
  \<^verbatim>\<open>u32\<close> and the 32-bit sum, and \<open>blk_count\<close> from the aligned length.
\<close>

definition blk_start :: "dfu_entity \<Rightarrow> u64 \<Rightarrow> u32" where
  "blk_start dfu offset = lba_start dfu + ucast (lldiv offset (lba_blk_size dfu))"

definition blk_count :: "dfu_entity \<Rightarrow> int \<Rightarrow> u32" where
  "blk_count dfu len = ulong len div lba_blk_size dfu"

text \<open>
  The \<^verbatim>\<open>switch (op)\<close> of \<^verbatim>\<open>mmc_block_op\<close>: the call through \<^verbatim>\<open>mmc->block_dev\<close> and the
  count \<open>n\<close> it reports; for any other operation \<open>n\<close> keeps its initial 0.
\<close>

definition block_xfer ::
  "'w env \<Rightarrow> dfu_op \<Rightarrow> dfu_entity \<Rightarrow> u32 \<Rightarrow> u32 \<Rightarrow> cbuf \<Rightarrow> 'w sys \<Rightarrow> (u32 \<times> cbuf \<times> 'w sys) option" where
  "block_xfer e op dfu bstart bcount buf s =
     (case op of
        DFU_OP_READ \<Rightarrow>
          (case find_mmc_device s (dev_num dfu) of
             None \<Rightarrow> None
           | Some m \<Rightarrow>
               (let ((n, d), w) = block_read e (dev_num dfu) bstart bcount (buf_data buf) (world s)
                in Some (n, buf\<lparr>buf_data := d\<rparr>,
                     s\<lparr>world := w,
                       trace := trace s @ [EvBlockRead (dev_num dfu) bstart bcount n]\<rparr>)))
      | DFU_OP_WRITE \<Rightarrow>
          (case find_mmc_device s (dev_num dfu) of
             None \<Rightarrow> None
           | Some m \<Rightarrow>
               (let (n, w) = block_write e (dev_num dfu) bstart bcount (buf_data buf) (world s)
                in Some (n, buf,
                     s\<lparr>world := w,
                       trace := trace s @ [EvBlockWrite (dev_num dfu) bstart bcount n]\<rparr>)))
      | DFU_OP_SIZE \<Rightarrow> Some (0, buf, s))"

text \<open>
  \<^verbatim>\<open>mmc_block_op\<close>. The result is the return code, the value left in \<^verbatim>\<open>*len\<close>, the
  buffer and the state. \<open>len1\<close> is \<^verbatim>\<open>*len\<close> after the assignment of the aligned length.
\<close>

definition mmc_block_op ::
  "'w env \<Rightarrow> dfu_op \<Rightarrow> dfu_entity \<Rightarrow> u64 \<Rightarrow> cbuf \<Rightarrow> int \<Rightarrow> 'w sys
     \<Rightarrow> (int \<times> int \<times> cbuf \<times> 'w sys) option" where
  "mmc_block_op e op dfu offset buf len s =
     (let len1 = long_of (ALIGN len (lba_blk_size dfu)) in
      if lba_blk_size dfu = 0 then None
      else if blk_start dfu offset + blk_count dfu len1 > lba_start dfu + lba_size dfu
      then Some (- EINVAL, len1, buf, s)
      else do {
        (part_num_bkp, ret, s1) \<leftarrow>
          (if 0 \<le> hw_partition dfu
           then do {
             m \<leftarrow> find_mmc_device s (dev_num dfu);
             (r, s') \<leftarrow> mmc_access_part e dfu (hw_partition dfu) s;
             Some (part_num m, r, s')
           }
           else Some (0, 0, s));
        if ret \<noteq> 0 then Some (ret, len1, buf, s1)
        else do {
          (n, buf1, s2) \<leftarrow>
            block_xfer e op dfu (blk_start dfu offset) (blk_count dfu len1) buf s1;
          if n \<noteq> blk_count dfu len1
          then do {
            (r, s3) \<leftarrow>
              (if 0 \<le> hw_partition dfu then mmc_access_part e dfu part_num_bkp s2
               else Some (0, s2));
            Some (- EIO, len1, buf1, s3)
          }
          else do {
            (ret2, s3) \<leftarrow>
              (if 0 \<le> hw_partition dfu then mmc_access_part e dfu part_num_bkp s2
               else Some (0, s2));
            if ret2 \<noteq> 0 then Some (ret2, len1, buf1, s3)
            else Some (0, len1, buf1, s3)
          }
        }
      })"


section \<open>Staging buffer and filesystem access\<close>

text \<open>
  \<^verbatim>\<open>memcpy(dst + off, src, n)\<close> on byte lists: \<open>n\<close> bytes of \<open>src\<close> replace the bytes of
  \<open>dst\<close> from \<open>off\<close> on.
\<close>

definition memcpy :: "u8 list \<Rightarrow> nat \<Rightarrow> u8 list \<Rightarrow> nat \<Rightarrow> u8 list" where
  "memcpy dst off src n = take off dst @ take n src @ drop (off + n) dst"

text \<open>
  \<^verbatim>\<open>mmc_file_buffer\<close>. The sum \<^verbatim>\<open>dfu_file_buf_len + *len\<close> is a \<^verbatim>\<open>long\<close>. The caller's \<^verbatim>\<open>buf\<close>
  holds the bytes and \<^verbatim>\<open>*len\<close> says how many of them to take. A \<^verbatim>\<open>memcpy\<close> that leaves its
  objects is a fault: a negative count, more bytes than \<open>buf\<close> holds, a start before the
  array \<^verbatim>\<open>dfu_file_buf\<close>, or an end behind its \<^verbatim>\<open>CONFIG_SYS_DFU_MAX_FILE_SIZE\<close> bytes.
\<close>

definition mmc_file_buffer :: "'w env \<Rightarrow> dfu_entity \<Rightarrow> cbuf \<Rightarrow> int \<Rightarrow> 'w sys \<Rightarrow> (int \<times> 'w sys) option" where
  "mmc_file_buffer e dfu buf len s =
     (if long_of (dfu_file_buf_len s + len) > int (CONFIG_SYS_DFU_MAX_FILE_SIZE e)
      then Some (- EINVAL, s\<lparr>dfu_file_buf_len := 0\<rparr>)
      else if len < 0 \<or> int (length (buf_data buf)) < len
                \<or> dfu_file_buf_len s < 0
                \<or> int (CONFIG_SYS_DFU_MAX_FILE_SIZE e) < dfu_file_buf_len s + len
      then None
      else Some (0, s\<lparr>dfu_file_buf :=
                         memcpy (dfu_file_buf s) (nat (dfu_file_buf_len s)) (buf_data buf) (nat len),
                       dfu_file_buf_len := long_of (dfu_file_buf_len s + len)\<rparr>))"

text \<open>The conversions \<^verbatim>\<open>%d\<close>, \<^verbatim>\<open>%x\<close> and \<^verbatim>\<open>%lx\<close> of \<^verbatim>\<open>sprintf\<close>.\<close>

definition digit_char :: "nat \<Rightarrow> char" where
  "digit_char n = ''0123456789abcdef'' ! n"

fun dec_digits :: "nat \<Rightarrow> string" where
  "dec_digits n = (if n < 10 then [digit_char n] else dec_digits (n div 10) @ [digit_char (n mod 10)])"

fun hex_digits :: "nat \<Rightarrow> string" where
  "hex_digits n = (if n < 16 then [digit_char n] else hex_digits (n div 16) @ [digit_char (n mod 16)])"

declare dec_digits.simps [simp del] hex_digits.simps [simp del]

definition fmt_d :: "u32 \<Rightarrow> string" where
  "fmt_d x = (if sint x < 0 then ''-'' @ dec_digits (nat (- sint x)) else dec_digits (nat (sint x)))"

definition fmt_x :: "u32 \<Rightarrow> string" where
  "fmt_x x = hex_digits (unat x)"

text \<open>
  Modelled from the spec: \<^verbatim>\<open>simple_strtoul\<close>, a library function that
  \<^verbatim>\<open>dfu_mmc.c\<close> only calls.
  "A 0x or 0 prefix selects base 16/8, otherwise base 10; a malformed numeral resolves
  to 0." The prefix is looked for when the base argument is 0; the result is an
  \<^verbatim>\<open>unsigned long\<close>.
\<close>

definition digit_val :: "char \<Rightarrow> nat option" where
  "digit_val c =
     (let k = (of_char c :: nat) in
      if 48 \<le> k \<and> k \<le> 57 then Some (k - 48)
      else if 97 \<le> k \<and> k \<le> 102 then Some (k - 87)
      else if 65 \<le> k \<and> k \<le> 70 then Some (k - 55)
      else None)"

fun numeral_val :: "nat \<Rightarrow> nat \<Rightarrow> string \<Rightarrow> nat option" where
  "numeral_val b acc [] = Some acc"
| "numeral_val b acc (c # cs) =
     (case digit_val c of
        None \<Rightarrow> None
      | Some v \<Rightarrow> if v < b then numeral_val b (acc * b + v) cs else None)"

definition simple_strtoul :: "string \<Rightarrow> nat \<Rightarrow> u32" where
  "simple_strtoul cp base =
     (let (b, ds) =
            (if base \<noteq> 0 then (base, cp)
             else if take 2 cp = ''0x'' then (16, drop 2 cp)
             else if take 1 cp = ''0'' then (8, drop 1 cp)
             else (10, cp))
      in case numeral_val b 0 ds of None \<Rightarrow> 0 | Some v \<Rightarrow> word_of_nat v)"

text \<open>
  \<^verbatim>\<open>mmc_file_op\<close>: the command line is built piece by piece as the \<^verbatim>\<open>sprintf\<close> calls do
  (the bound \<^verbatim>\<open>DFU_CMD_BUF_SIZE\<close> of the command buffer is not modelled), run, and for a
  read or a size query the byte count is read back from the variable \<^verbatim>\<open>filesize\<close>.
  The result is the return code, the value left in \<^verbatim>\<open>*len\<close> and the state.
\<close>

definition mmc_file_op :: "'w env \<Rightarrow> dfu_op \<Rightarrow> dfu_entity \<Rightarrow> u32 \<Rightarrow> int \<Rightarrow> 'w sys \<Rightarrow> int \<times> int \<times> 'w sys" where
  "mmc_file_op e op dfu buf len s =
     (case (case layout dfu of
              DFU_FS_FAT \<Rightarrow> Some ''fat''
            | DFU_FS_EXT4 \<Rightarrow> Some ''ext4''
            | _ \<Rightarrow> None) of
        None \<Rightarrow> (- 1, len, s)
      | Some fsname \<Rightarrow>
          (let opname = (case op of
                           DFU_OP_READ \<Rightarrow> ''load''
                         | DFU_OP_WRITE \<Rightarrow> ''write''
                         | DFU_OP_SIZE \<Rightarrow> ''size'');
               cmd0 = fsname @ opname @ '' mmc '' @ fmt_d (mmc_dev dfu) @ '':'' @ fmt_d (mmc_part dfu);
               cmd1 = (if op \<noteq> DFU_OP_SIZE then cmd0 @ '' 0x'' @ fmt_x buf else cmd0);
               cmd2 = cmd1 @ '' '' @ name dfu;
               cmd_buf = (if op = DFU_OP_WRITE then cmd2 @ '' '' @ fmt_x (ulong len) else cmd2);
               (ret, w) = run_command e cmd_buf (world s);
               s1 = s\<lparr>world := w, trace := trace s @ [EvRunCommand cmd_buf ret]\<rparr>
           in if ret \<noteq> 0 then (ret, len, s1)
              else if op \<noteq> DFU_OP_WRITE
              then (let s2 = s1\<lparr>trace := trace s1 @ [EvGetenv ''filesize'']\<rparr>
                    in case getenv e ''filesize'' w of
                         None \<Rightarrow> (- 1, len, s2)
                       | Some str_env \<Rightarrow> (ret, sint (simple_strtoul str_env 16), s2))
              else (ret, len, s1)))"

section \<open>The medium operations\<close>

definition dfu_write_medium_mmc ::
  "'w env \<Rightarrow> dfu_entity \<Rightarrow> u64 \<Rightarrow> cbuf \<Rightarrow> int \<Rightarrow> 'w sys \<Rightarrow> (int \<times> int \<times> cbuf \<times> 'w sys) option" where
  "dfu_write_medium_mmc e dfu offset buf len s =
     (case layout dfu of
        DFU_RAW_ADDR \<Rightarrow> mmc_block_op e DFU_OP_WRITE dfu offset buf len s
      | DFU_FS_FAT \<Rightarrow> map_option (\<lambda>(ret, s'). (ret, len, buf, s')) (mmc_file_buffer e dfu buf len s)
      | DFU_FS_EXT4 \<Rightarrow> map_option (\<lambda>(ret, s'). (ret, len, buf, s')) (mmc_file_buffer e dfu buf len s)
      | DFU_LAYOUT_OTHER \<Rightarrow> Some (- 1, len, buf, s))"

definition dfu_flush_medium_mmc :: "'w env \<Rightarrow> dfu_entity \<Rightarrow> 'w sys \<Rightarrow> int \<times> 'w sys" where
  "dfu_flush_medium_mmc e dfu s =
     (if layout dfu \<noteq> DFU_RAW_ADDR
      then (let (ret, len', s1) =
                  mmc_file_op e DFU_OP_WRITE dfu (dfu_file_buf_addr e) (dfu_file_buf_len s) s
            in (ret, s1\<lparr>dfu_file_buf_len := 0\<rparr>))
      else (0, s))"

text \<open>
  \<^verbatim>\<open>dfu_get_medium_size_mmc\<close>. The local \<^verbatim>\<open>len\<close> is not initialised; \<open>len0\<close> is the value
  it happens to hold.
\<close>

definition dfu_get_medium_size_mmc :: "'w env \<Rightarrow> dfu_entity \<Rightarrow> int \<Rightarrow> 'w sys \<Rightarrow> int \<times> 'w sys" where
  "dfu_get_medium_size_mmc e dfu len0 s =
     (case layout dfu of
        DFU_RAW_ADDR \<Rightarrow> (sint (lba_size dfu * lba_blk_size dfu), s)
      | DFU_FS_FAT \<Rightarrow>
          (let (ret, len, s1) = mmc_file_op e DFU_OP_SIZE dfu 0 len0 s
           in if ret < 0 then (ret, s1) else (len, s1))
      | DFU_FS_EXT4 \<Rightarrow>
          (let (ret, len, s1) = mmc_file_op e DFU_OP_SIZE dfu 0 len0 s
           in if ret < 0 then (ret, s1) else (len, s1))
      | DFU_LAYOUT_OTHER \<Rightarrow> (- 1, s))"

definition dfu_read_medium_mmc ::
  "'w env \<Rightarrow> dfu_entity \<Rightarrow> u64 \<Rightarrow> cbuf \<Rightarrow> int \<Rightarrow> 'w sys \<Rightarrow> (int \<times> int \<times> cbuf \<times> 'w sys) option" where
  "dfu_read_medium_mmc e dfu offset buf len s =
     (case layout dfu of
        DFU_RAW_ADDR \<Rightarrow> mmc_block_op e DFU_OP_READ dfu offset buf len s
      | DFU_FS_FAT \<Rightarrow>
          (let (ret, len', s') = mmc_file_op e DFU_OP_READ dfu (buf_addr buf) len s
           in Some (ret, len', buf, s'))
      | DFU_FS_EXT4 \<Rightarrow>
          (let (ret, len', s') = mmc_file_op e DFU_OP_READ dfu (buf_addr buf) len s
           in Some (ret, len', buf, s'))
      | DFU_LAYOUT_OTHER \<Rightarrow> Some (- 1, len, buf, s))"

section \<open>Parsing an entity descriptor\<close>

text \<open>
  \<^verbatim>\<open>strsep(&s, delim)\<close> of the C library: a \<^verbatim>\<open>NULL\<close> string gives \<^verbatim>\<open>NULL\<close>; otherwise the
  token runs up to the first delimiter, and \<open>s\<close> moves behind that delimiter, or becomes
  \<^verbatim>\<open>NULL\<close> when there is none. The result is the token and the new \<open>s\<close>.
\<close>

definition strsep :: "string option \<Rightarrow> string \<Rightarrow> string option \<times> string option" where
  "strsep sp delim =
     (case sp of
        None \<Rightarrow> (None, None)
      | Some str \<Rightarrow>
          (Some (takeWhile (\<lambda>c. c \<notin> set delim) str),
           (case dropWhile (\<lambda>c. c \<notin> set delim) str of
              [] \<Rightarrow> None
            | d # rest \<Rightarrow> Some rest)))"

text \<open>
  The \<^verbatim>\<open>for\<close> loop that fills \<^verbatim>\<open>argv\<close>: \<open>k\<close> tokens are still to be taken; \<open>None\<close> is the
  exit through "Invalid number of arguments".
\<close>

fun fill_argv :: "nat \<Rightarrow> string option \<Rightarrow> (string list \<times> string option) option" where
  "fill_argv 0 sp = Some ([], sp)"
| "fill_argv (Suc k) sp =
     (case strsep sp '' '' of
        (None, sp') \<Rightarrow> None
      | (Some tok, sp') \<Rightarrow>
          (case fill_argv k sp' of
             None \<Rightarrow> None
           | Some (toks, sp'') \<Rightarrow> Some (tok # toks, sp'')))"

text \<open>
  The optional \<^verbatim>\<open>mmcpart <num>\<close> entry of a raw descriptor: the new value of
  \<^verbatim>\<open>hw_partition\<close>, or \<open>None\<close> when \<^verbatim>\<open>simple_strtoul\<close> is handed the \<^verbatim>\<open>NULL\<close> that \<^verbatim>\<open>strsep\<close>
  leaves behind a last token.
\<close>

definition mmcpart_entry :: "string option \<Rightarrow> int \<Rightarrow> int option" where
  "mmcpart_entry sp hw =
     (case sp of
        None \<Rightarrow> Some hw
      | Some str \<Rightarrow>
          (case strsep (Some str) '' '' of
             (None, sp') \<Rightarrow> None
           | (Some tok, sp') \<Rightarrow>
               if tok = ''mmcpart''
               then (case sp' of
                       None \<Rightarrow> None
                     | Some num \<Rightarrow> Some (sint (simple_strtoul num 0)))
               else Some hw))"

text \<open>
  \<^verbatim>\<open>dfu_fill_entity_mmc\<close>. The result is the return code, the entity and the state;
  \<open>None\<close> is the fault of \<open>mmcpart_entry\<close>.
\<close>

definition dfu_fill_entity_mmc ::
  "'w env \<Rightarrow> dfu_entity \<Rightarrow> string \<Rightarrow> 'w sys \<Rightarrow> (int \<times> dfu_entity \<times> 'w sys) option" where
  "dfu_fill_entity_mmc e dfu str s =
     (case fill_argv 3 (Some str) of
        None \<Rightarrow> Some (- ENODEV, dfu, s)
      | Some (argv, sp) \<Rightarrow>
          (let entity_type = argv ! 0;
               second_arg = simple_strtoul (argv ! 1) 0;
               third_arg = simple_strtoul (argv ! 2) 0
           in case find_mmc_device s (dev_num dfu) of
                None \<Rightarrow> Some (- ENODEV, dfu, s)
              | Some m \<Rightarrow>
                  (let ((r, m'), w) = mmc_init e (dev_num dfu) m (world s);
                       s1 = s\<lparr>mmcs := (mmcs s)(dev_num dfu \<mapsto> m'),
                              world := w,
                              trace := trace s @ [EvMmcInit (dev_num dfu) r]\<rparr>
                   in if r \<noteq> 0 then Some (- ENODEV, dfu, s1)
                      else do {
                        (ret, dfu2, s2) \<leftarrow>
                          (let dfu1 = dfu\<lparr>hw_partition := - EINVAL\<rparr> in
                           if entity_type = ''raw''
                           then do {
                             hw \<leftarrow> mmcpart_entry sp (- EINVAL);
                             Some (0, dfu1\<lparr>layout := DFU_RAW_ADDR,
                                          lba_start := second_arg,
                                          lba_size := third_arg,
                                          lba_blk_size := read_bl_len m',
                                          hw_partition := hw\<rparr>, s1)
                           }
                           else if entity_type = ''part''
                           then (let (info, w') = get_partition_info e (dev_num dfu) (sint third_arg) (world s1);
                                     s2 = s1\<lparr>world := w',
                                             trace := trace s1 @ [EvPartInfo (dev_num dfu) (sint third_arg)]\<rparr>
                                 in case info of
                                      None \<Rightarrow> Some (- ENODEV, dfu1, s2)
                                    | Some partinfo \<Rightarrow>
                                        Some (0, dfu1\<lparr>layout := DFU_RAW_ADDR,
                                                     lba_start := start partinfo,
                                                     lba_size := size_blocks partinfo,
                                                     lba_blk_size := blksz partinfo\<rparr>, s2))
                           else if entity_type = ''fat'' then Some (0, dfu1\<lparr>layout := DFU_FS_FAT\<rparr>, s1)
                           else if entity_type = ''ext4'' then Some (0, dfu1\<lparr>layout := DFU_FS_EXT4\<rparr>, s1)
                           else Some (- ENODEV, dfu1, s1));
                        if ret \<noteq> 0 then Some (ret, dfu2, s2)
                        else
                          (let dfu3 = (if entity_type \<noteq> ''raw''
                                       then dfu2\<lparr>mmc_dev := second_arg, mmc_part := third_arg\<rparr>
                                       else dfu2)
                           in Some (0, dfu3\<lparr>dev_type := DFU_DEV_MMC, inited := 0\<rparr>, s2))
                      })))"

section \<open>Observing a run\<close>

text \<open>The events a run appended to the trace: \<open>s\<close> is the state before, \<open>s'\<close> the one after.\<close>

definition new_events :: "'w sys \<Rightarrow> 'w sys \<Rightarrow> event list" where
  "new_events s s' = drop (length (trace s)) (trace s')"

text \<open>The event of the block transfer of an operation, when it has one.\<close>

definition xfer_events :: "dfu_op \<Rightarrow> int \<Rightarrow> u32 \<Rightarrow> u32 \<Rightarrow> u32 \<Rightarrow> event list" where
  "xfer_events op d bstart bcount n =
     (case op of
        DFU_OP_READ \<Rightarrow> [EvBlockRead d bstart bcount n]
      | DFU_OP_WRITE \<Rightarrow> [EvBlockWrite d bstart bcount n]
      | DFU_OP_SIZE \<Rightarrow> [])"

text \<open>
  The tokens of a descriptor as the specification counts them: maximal runs of characters
  that are not white space. This is the reading of "whitespace-separated tokens"; the
  parser itself is \<open>fill_argv\<close> above.
\<close>

definition is_space :: "char \<Rightarrow> bool" where
  "is_space c = (c \<in> set [CHR '' '', CHR 0x09, CHR 0x0A, CHR 0x0B, CHR 0x0C, CHR 0x0D])"

fun spec_tokens_acc :: "string \<Rightarrow> string \<Rightarrow> string list" where
  "spec_tokens_acc cur [] = (if cur = [] then [] else [cur])"
| "spec_tokens_acc cur (c # cs) =
     (if is_space c
      then (if cur = [] then spec_tokens_acc [] cs else cur # spec_tokens_acc [] cs)
      else spec_tokens_acc (cur @ [c]) cs)"

definition spec_tokens :: "string \<Rightarrow> string list" where
  "spec_tokens str = spec_tokens_acc [] str"

section \<open>A concrete platform\<close>

text \<open>
  A device and an environment to run the model on. The state behind the capabilities
  counts the calls made so far; \<open>sw\<close> gives the return code of a partition switch from
  that count, \<open>xf\<close> the number of blocks a transfer reports from the number requested.
\<close>

definition demo_env :: "(nat \<Rightarrow> int) \<Rightarrow> (u32 \<Rightarrow> u32) \<Rightarrow> nat env" where
  "demo_env sw xf =
     \<lparr>CONFIG_SYS_DFU_MAX_FILE_SIZE = 8, dfu_file_buf_addr = 0x1000,
      mmc_switch_part = (\<lambda>d p w. (sw w, Suc w)),
      block_read = (\<lambda>d st c data w. ((xf c, data), Suc w)),
      block_write = (\<lambda>d st c data w. (xf c, Suc w)),
      mmc_init = (\<lambda>d m w. ((0, m), Suc w)),
      get_partition_info = (\<lambda>d p w. (None, w)),
      run_command = (\<lambda>c w. (0, Suc w)),
      getenv = (\<lambda>n w. None)\<rparr>"

definition demo_sys :: "nat sys" where
  "demo_sys =
     \<lparr>mmcs = (\<lambda>d. if d = 0 then Some \<lparr>part_num = 0, read_bl_len = 512\<rparr> else None),
      dfu_file_buf = [0, 0, 0, 0, 0, 0, 0, 0], dfu_file_buf_len = 0, world = 0, trace = []\<rparr>"

definition demo_raw :: dfu_entity where
  "demo_raw =
     \<lparr>name = ''u-boot'', dev_type = DFU_DEV_MMC, dev_num = 0, layout = DFU_RAW_ADDR,
      lba_start = 100, lba_size = 50, lba_blk_size = 512, hw_partition = - 22,
      mmc_dev = 0, mmc_part = 0, inited = 0\<rparr>"

definition demo_top :: dfu_entity where
  "demo_top = demo_raw\<lparr>lba_start := 0xFFFFFF00, lba_size := 0x80\<rparr>"

definition demo_hw :: dfu_entity where
  "demo_hw = demo_raw\<lparr>hw_partition := 2\<rparr>"

definition demo_blank :: dfu_entity where
  "demo_blank =
     \<lparr>name = ''u-boot'', dev_type = DFU_DEV_NONE, dev_num = 0, layout = DFU_LAYOUT_OTHER,
      lba_start = 0, lba_size = 0, lba_blk_size = 0, hw_partition = 0,
      mmc_dev = 0, mmc_part = 0, inited = 1\<rparr>"

definition demo_fat :: dfu_entity where
  "demo_fat = demo_blank\<lparr>layout := DFU_FS_FAT, mmc_dev := 0, mmc_part := 1\<rparr>"

definition demo_buf :: cbuf where
  "demo_buf = \<lparr>buf_addr = 0x2000, buf_data = [1, 2, 3]\<rparr>"

section \<open>Auxiliary facts\<close>

lemmas block_op_defs =
  mmc_block_op_def mmc_access_part_def block_xfer_def find_mmc_device_def new_events_def

lemmas demo_defs =
  demo_env_def demo_sys_def demo_raw_def demo_top_def demo_hw_def demo_buf_def demo_blank_def
  blk_start_def blk_count_def ALIGN_def lldiv_def ulong_def long_of_def
  EINVAL_def EIO_def ENODEV_def

lemmas parse_defs =
  dfu_fill_entity_mmc_def strsep_def mmcpart_entry_def simple_strtoul_def digit_val_def
  numeral_3_eq_3

lemma uint_pos: "a \<noteq> 0 \<Longrightarrow> 0 < uint (a::u32)"
  using uint_ge_0 [of a] uint_0_iff [of a] by linarith

lemma round_up_div:
  assumes b: "0 < (b::int)"
  shows "(x + b - 1) div b = - ((- x) div b)"
proof -
  define q where "q = x div b"
  define r where "r = x mod b"
  have x: "x = r + b * q" by (simp add: q_def r_def)
  have r: "0 \<le> r" "r < b" using b by (simp_all add: r_def)
  have lhs: "(x + b - 1) div b = q + (r + b - 1) div b"
  proof -
    have "x + b - 1 = (r + b - 1) + b * q" using x by simp
    then show ?thesis using b by (simp only: div_mult_self2)
  qed
  have rhs: "(- x) div b = (if r = 0 then - q else - q - 1)"
    using b by (simp add: zdiv_zminus1_eq_if q_def r_def)
  show ?thesis
  proof (cases "r = 0")
    case True
    have "(b - 1) div b = 0" using b by simp
    with True lhs rhs show ?thesis by simp
  next
    case False
    have "r + b - 1 = (r - 1) + b * 1" by simp
    then have "(r + b - 1) div b = 1 + (r - 1) div b"
      using b by (simp only: div_mult_self2)
    moreover have "(r - 1) div b = 0" using r False by simp
    ultimately show ?thesis using False lhs rhs by simp
  qed
qed

lemma ALIGN_ceiling:
  assumes "a \<noteq> 0"
  shows "ALIGN x a = \<lceil>real_of_int x / real_of_int (uint a)\<rceil> * uint a"
  unfolding ALIGN_def ceiling_divide_eq_div
  using round_up_div [OF uint_pos [OF assms], of x] by simp

lemma uint_blk_start:
  "uint (blk_start dfu offset)
     = (uint (lba_start dfu) + uint offset div uint (lba_blk_size dfu)) mod 2 ^ 32"
proof -
  have "uint (lba_blk_size dfu) < 2 ^ 32"
    using uint_lt2p [of "lba_blk_size dfu"] by simp
  then have up: "uint (lba_blk_size dfu) mod 18446744073709551616 = uint (lba_blk_size dfu)"
    by simp
  have "uint (ucast (lldiv offset (lba_blk_size dfu)) :: u32)
          = (uint offset div uint (lba_blk_size dfu)) mod 2 ^ 32"
    by (simp add: lldiv_def uint_div up unsigned_ucast_eq take_bit_eq_mod)
  then show ?thesis
    by (simp add: blk_start_def uint_word_ariths mod_add_right_eq)
qed

lemma uint_blk_count:
  assumes "0 \<le> x" "x < 2 ^ 31"
  shows "uint (blk_count dfu x) = x div uint (lba_blk_size dfu)"
proof -
  have "uint (ulong x) = x"
    using assms by (simp add: ulong_def uint_word_of_int)
  then show ?thesis by (simp add: blk_count_def uint_div)
qed

lemma long_of_id:
  assumes "- (2 ^ 31) \<le> x" and "x < 2 ^ 31"
  shows "long_of x = x"
  using assms by (simp add: long_of_def)

lemma ulong_long_of: "ulong (long_of x) = ulong x"
proof -
  have "((x + 2 ^ 31) mod 2 ^ 32 - 2 ^ 31) mod 2 ^ 32 = x mod (2 ^ 32 :: int)"
    by (simp add: mod_diff_left_eq)
  then show ?thesis
    unfolding ulong_def long_of_def word_of_int_eq_iff take_bit_eq_mod by simp
qed

lemma blk_count_long_of: "blk_count dfu (long_of x) = blk_count dfu x"
  by (simp add: blk_count_def ulong_long_of)

lemma ALIGN_ge:
  assumes "a \<noteq> 0"
  shows "x \<le> ALIGN x a"
proof -
  have pos: "0 < uint a" using assms by (rule uint_pos)
  define y where "y = x + uint a - 1"
  have "y div uint a * uint a = y - y mod uint a"
    by (simp add: minus_mod_eq_div_mult)
  moreover have "y mod uint a \<le> uint a - 1"
    using pos pos_mod_bound [of "uint a" y] by simp
  ultimately have "x \<le> y div uint a * uint a" by (simp add: y_def)
  then show ?thesis by (simp add: ALIGN_def y_def)
qed

section \<open>Raw access: the range check\<close>

text \<open>
  The check as the source computes it: when the comparison holds on the 32-bit values,
  the call returns \<open>-EINVAL\<close> and the state is the one before the call.
\<close>

lemma mmc_block_op_range_check:
  assumes "lba_blk_size dfu \<noteq> 0"
    and "blk_start dfu offset + blk_count dfu (ALIGN len (lba_blk_size dfu))
           > lba_start dfu + lba_size dfu"
  shows "mmc_block_op e op dfu offset buf len s
           = Some (- EINVAL, long_of (ALIGN len (lba_blk_size dfu)), buf, s)"
  using assms by (simp add: mmc_block_op_def blk_count_long_of)

text \<open>
  What holds of the range check. For every raw access, read or write, in which neither
  \<open>blk_start + blk_count\<close> nor \<open>lba_start + lba_size\<close> leaves 32 bits: when the block range
  ends beyond the declared area, the call returns \<open>-EINVAL\<close> and the state is the one
  before the call, so no block was read or written and no partition switch was asked
  for.
\<close>

theorem mmc_block_op_rejects_beyond_end:
  assumes "lba_blk_size dfu \<noteq> 0"
    and "uint (blk_start dfu offset) + uint (blk_count dfu (ALIGN len (lba_blk_size dfu))) < 2 ^ 32"
    and "uint (lba_start dfu) + uint (lba_size dfu) < 2 ^ 32"
    and "uint (blk_start dfu offset) + uint (blk_count dfu (ALIGN len (lba_blk_size dfu)))
           > uint (lba_start dfu) + uint (lba_size dfu)"
  shows "mmc_block_op e op dfu offset buf len s
           = Some (- EINVAL, long_of (ALIGN len (lba_blk_size dfu)), buf, s)"
proof -
  have l: "uint (blk_start dfu offset + blk_count dfu (ALIGN len (lba_blk_size dfu)))
             = uint (blk_start dfu offset) + uint (blk_count dfu (ALIGN len (lba_blk_size dfu)))"
    using assms(2) by (simp add: uint_word_ariths)
  have r: "uint (lba_start dfu + lba_size dfu) = uint (lba_start dfu) + uint (lba_size dfu)"
    using assms(3) by (simp add: uint_word_ariths)
  have "blk_start dfu offset + blk_count dfu (ALIGN len (lba_blk_size dfu))
          > lba_start dfu + lba_size dfu"
    using assms(4) l r by (simp add: word_less_def)
  then show ?thesis using assms(1) by (rule mmc_block_op_range_check [rotated])
qed

theorem mmc_block_op_rejects_beyond_end_witness:
  "lba_blk_size demo_raw \<noteq> 0
   \<and> uint (blk_start demo_raw (49 * 512)) + uint (blk_count demo_raw (ALIGN 513 (lba_blk_size demo_raw))) < 2 ^ 32
   \<and> uint (lba_start demo_raw) + uint (lba_size demo_raw) < 2 ^ 32
   \<and> uint (blk_start demo_raw (49 * 512)) + uint (blk_count demo_raw (ALIGN 513 (lba_blk_size demo_raw)))
           > uint (lba_start demo_raw) + uint (lba_size demo_raw)
   \<and> mmc_block_op (demo_env (\<lambda>w. 0) id) DFU_OP_WRITE demo_raw (49 * 512) demo_buf 513 demo_sys
       = Some (- 22, 1024, demo_buf, demo_sys)"
  using mmc_block_op_rejects_beyond_end
    [of demo_raw "49 * 512" 513 "demo_env (\<lambda>w. 0) id" DFU_OP_WRITE demo_buf demo_sys]
  by (simp add: demo_defs)

text \<open>
  C1 at an input where the sum leaves 32 bits. The area is the 128 blocks from
  \<open>0xFFFFFF00\<close>; a write of 256 blocks at offset 0 ends at block \<open>2^32\<close>, beyond the
  area's end \<open>0xFFFFFF80\<close>. The source adds \<open>blk_start\<close> and \<open>blk_count\<close> as \<^verbatim>\<open>u32\<close>, gets
  0, finds it not greater than the end of the area, and calls the block write for all
  256 blocks.
\<close>

theorem mmc_block_op_range_check_wraps:
  "mmc_block_op (demo_env (\<lambda>w. 0) id) DFU_OP_WRITE demo_top 0 demo_buf 131072 demo_sys
     = Some (0, 131072, demo_buf, demo_sys\<lparr>world := 1, trace := [EvBlockWrite 0 0xFFFFFF00 256 256]\<rparr>)
   \<and> uint (blk_start demo_top 0) + uint (blk_count demo_top (ALIGN 131072 (lba_blk_size demo_top))) = 4294967296
   \<and> uint (lba_start demo_top) + uint (lba_size demo_top) = 4294967168
   \<and> blk_start demo_top 0 + blk_count demo_top (ALIGN 131072 (lba_blk_size demo_top)) = 0"
  by (simp add: block_op_defs demo_defs demo_top_def)

section \<open>Raw access: length, start block and block count\<close>

lemma mmc_block_op_xfer_args:
  assumes "mmc_block_op e op dfu offset buf len s = Some (r, l, b, s')"
  shows "l = long_of (ALIGN len (lba_blk_size dfu))
    \<and> (\<forall>d st c n. EvBlockRead d st c n \<in> set (new_events s s')
                    \<or> EvBlockWrite d st c n \<in> set (new_events s s')
           \<longrightarrow> st = blk_start dfu offset \<and> c = blk_count dfu (ALIGN len (lba_blk_size dfu)))"
  using assms
  by (auto simp: block_op_defs Let_def blk_count_long_of
      split: if_splits option.splits prod.splits dfu_op.splits Option.bind_splits)

text \<open>
  C2, as the code has it. For every raw access with block size \<open>B > 0\<close>, a requested
  length \<open>0 \<le> L\<close> whose aligned value fits a \<^verbatim>\<open>long\<close>, and an offset \<open>O\<close> for which
  \<open>lba_start + floor(O / B)\<close> is a 32-bit block number: the length used is
  \<open>ceil(L / B) * B\<close>, the starting block is \<open>lba_start + floor(O / B)\<close>, and the block
  count is the aligned length divided by \<open>B\<close>. Every run that returns leaves the aligned
  length in \<^verbatim>\<open>*len\<close>, and every block transfer it makes is asked for exactly this start
  and count.
\<close>

theorem mmc_block_op_geometry:
  assumes "lba_blk_size dfu \<noteq> 0" and "0 \<le> len" and "ALIGN len (lba_blk_size dfu) < 2 ^ 31"
    and "uint (lba_start dfu) + uint offset div uint (lba_blk_size dfu) < 2 ^ 32"
  shows "ALIGN len (lba_blk_size dfu)
           = \<lceil>real_of_int len / real_of_int (uint (lba_blk_size dfu))\<rceil> * uint (lba_blk_size dfu)
    \<and> uint (blk_start dfu offset)
           = uint (lba_start dfu) + uint offset div uint (lba_blk_size dfu)
    \<and> uint (blk_count dfu (ALIGN len (lba_blk_size dfu)))
           = ALIGN len (lba_blk_size dfu) div uint (lba_blk_size dfu)
    \<and> (\<forall>r l b s'. mmc_block_op e op dfu offset buf len s = Some (r, l, b, s') \<longrightarrow>
          l = ALIGN len (lba_blk_size dfu)
          \<and> (\<forall>d st c n. EvBlockRead d st c n \<in> set (new_events s s')
                          \<or> EvBlockWrite d st c n \<in> set (new_events s s')
               \<longrightarrow> st = blk_start dfu offset \<and> c = blk_count dfu (ALIGN len (lba_blk_size dfu))))"
proof -
  have pos: "0 < uint (lba_blk_size dfu)" using assms(1) by (rule uint_pos)
  have nonneg: "0 \<le> ALIGN len (lba_blk_size dfu)"
  proof -
    have "0 \<le> (len + uint (lba_blk_size dfu) - 1) div uint (lba_blk_size dfu)"
      using pos assms(2) by (simp add: pos_imp_zdiv_nonneg_iff)
    then show ?thesis using pos by (simp add: ALIGN_def)
  qed
  have "0 \<le> uint (lba_start dfu) + uint offset div uint (lba_blk_size dfu)"
    using pos by (simp add: pos_imp_zdiv_nonneg_iff)
  then have start: "uint (blk_start dfu offset)
                      = uint (lba_start dfu) + uint offset div uint (lba_blk_size dfu)"
    using assms(4) uint_blk_start [of dfu offset] by simp
  have fits: "long_of (ALIGN len (lba_blk_size dfu)) = ALIGN len (lba_blk_size dfu)"
    using nonneg assms(3) by (simp add: long_of_id)
  show ?thesis
    using ALIGN_ceiling [OF assms(1), of len] start
      uint_blk_count [OF nonneg assms(3), of dfu]
      mmc_block_op_xfer_args [of e op dfu offset buf len s] fits
    by auto
qed

theorem mmc_block_op_geometry_witness:
  "lba_blk_size demo_raw \<noteq> 0 \<and> (0::int) \<le> 700 \<and> ALIGN 700 (lba_blk_size demo_raw) < 2 ^ 31
   \<and> uint (lba_start demo_raw) + uint (3 * 512 + 5 :: u64) div uint (lba_blk_size demo_raw) < 2 ^ 32
   \<and> ALIGN 700 (lba_blk_size demo_raw) = 1024
   \<and> blk_start demo_raw (3 * 512 + 5) = 103
   \<and> blk_count demo_raw 1024 = 2
   \<and> mmc_block_op (demo_env (\<lambda>w. 0) id) DFU_OP_READ demo_raw (3 * 512 + 5) demo_buf 700 demo_sys
       = Some (0, 1024, demo_buf, demo_sys\<lparr>world := 1, trace := [EvBlockRead 0 103 2 2]\<rparr>)"
  using mmc_block_op_geometry
    [of demo_raw 700 "3 * 512 + 5" "demo_env (\<lambda>w. 0) id" DFU_OP_READ demo_buf demo_sys]
  by (simp add: block_op_defs demo_defs)

text \<open>
  C2 as stated fails where the starting block does not fit 32 bits: \<open>blk_start\<close> is a
  \<^verbatim>\<open>u32\<close> and the quotient is cast to \<^verbatim>\<open>u32\<close>. With \<open>lba_start = 100\<close>, block size 512
  and offset \<open>(2^32 - 100) * 512\<close> the claim's starting block is
  \<open>100 + (2^32 - 100) = 4294967296\<close>; the code transfers at block 0.
\<close>

theorem mmc_block_op_start_wraps:
  "mmc_block_op (demo_env (\<lambda>w. 0) id) DFU_OP_WRITE demo_raw ((2 ^ 32 - 100) * 512) demo_buf 512 demo_sys
     = Some (0, 512, demo_buf, demo_sys\<lparr>world := 1, trace := [EvBlockWrite 0 0 1 1]\<rparr>)
   \<and> uint (lba_start demo_raw)
       + uint ((2 ^ 32 - 100) * 512 :: u64) div uint (lba_blk_size demo_raw) = 4294967296"
  by (simp add: block_op_defs demo_defs)

section \<open>Raw access under a hardware partition switch\<close>

text \<open>
  What a raw read or write under a hardware partition switch does (\<open>hw_partition \<ge> 0\<close>,
  different from the partition recorded as active), once the range check has passed and
  the first switch has succeeded: the call returns; after the transfer, complete or
  short, the switch capability is called once more, for the partition recorded before
  the call, as the last event of the run; when that restore succeeds the recorded
  partition is the one before the call, when it fails the recorded partition stays the
  one switched to; after a complete transfer the return code is the restore's, after a
  short one it is \<open>-EIO\<close>.
\<close>

lemma mmc_block_op_partition_restore:
  assumes "lba_blk_size dfu \<noteq> 0"
    and "\<not> blk_start dfu offset + blk_count dfu (ALIGN len (lba_blk_size dfu)) > lba_start dfu + lba_size dfu"
    and "0 \<le> hw_partition dfu"
    and "find_mmc_device s (dev_num dfu) = Some m"
    and "hw_partition dfu \<noteq> part_num m"
    and "fst (mmc_switch_part e (dev_num dfu) (hw_partition dfu) (world s)) = 0"
    and "op \<noteq> DFU_OP_SIZE"
  shows "\<exists>r b s' n ret.
           mmc_block_op e op dfu offset buf len s
             = Some (r, long_of (ALIGN len (lba_blk_size dfu)), b, s')
         \<and> new_events s s' =
              EvSwitchPart (dev_num dfu) (hw_partition dfu) 0
              # xfer_events op (dev_num dfu) (blk_start dfu offset) (blk_count dfu (ALIGN len (lba_blk_size dfu))) n
              @ [EvSwitchPart (dev_num dfu) (part_num m) ret]
         \<and> map_option part_num (find_mmc_device s' (dev_num dfu))
              = Some (if ret = 0 then part_num m else hw_partition dfu)
         \<and> r = (if n = blk_count dfu (ALIGN len (lba_blk_size dfu)) then ret else - EIO)"
  using assms
  apply (cases op)
  apply (auto simp: block_op_defs xfer_events_def Let_def blk_count_long_of
               split: if_splits option.splits prod.splits)
  done

text \<open>
  C3 at a short transfer whose restore fails. The entity asks for hardware partition 2
  and partition 0 is recorded as active. The switch to 2 succeeds, the device reports 0
  of the 1 block asked for, and the switch back to 0 returns \<open>-1\<close>: the call returns
  \<open>-EIO\<close> and the recorded partition stays 2. When the switch back succeeds instead, the
  call returns the same \<open>-EIO\<close> and the recorded partition is 0 again. The return code
  does not tell "transfer failed, partition restored" from "transfer failed, partition
  left switched": after a short transfer the source calls \<^verbatim>\<open>mmc_access_part\<close> without
  looking at its result, while after a complete transfer it returns that result.
\<close>

theorem mmc_block_op_restore_result_dropped:
  "map_option (\<lambda>(r, l, b, s'). (r, map_option part_num (find_mmc_device s' 0), new_events demo_sys s'))
     (mmc_block_op (demo_env (\<lambda>w. if w = 0 then 0 else - 1) (\<lambda>c. 0)) DFU_OP_WRITE demo_hw 0 demo_buf 512 demo_sys)
     = Some (- EIO, Some 2, [EvSwitchPart 0 2 0, EvBlockWrite 0 100 1 0, EvSwitchPart 0 0 (- 1)])
   \<and> map_option (\<lambda>(r, l, b, s'). (r, map_option part_num (find_mmc_device s' 0), new_events demo_sys s'))
     (mmc_block_op (demo_env (\<lambda>w. 0) (\<lambda>c. 0)) DFU_OP_WRITE demo_hw 0 demo_buf 512 demo_sys)
     = Some (- EIO, Some 0, [EvSwitchPart 0 2 0, EvBlockWrite 0 100 1 0, EvSwitchPart 0 0 0])
   \<and> map_option part_num (find_mmc_device demo_sys 0) = Some 0"
  by (simp add: block_op_defs demo_defs)

section \<open>Raw access: short transfers\<close>

text \<open>
  C5. In every run of a raw access that returns, each block transfer is asked for
  \<open>blk_count\<close> blocks, and when the device reports a different count the return code is
  \<open>-EIO\<close>; a read or write returns 0 only after a transfer whose reported count is
  \<open>blk_count\<close>.
\<close>

theorem mmc_block_op_short_transfer:
  assumes "mmc_block_op e op dfu offset buf len s = Some (r, l, b, s')"
  shows "(\<forall>d st c n. EvBlockRead d st c n \<in> set (new_events s s') \<or> EvBlockWrite d st c n \<in> set (new_events s s')
           \<longrightarrow> c = blk_count dfu l \<and> (n \<noteq> c \<longrightarrow> r = - EIO))
       \<and> (r = 0 \<and> op \<noteq> DFU_OP_SIZE \<longrightarrow>
            (\<exists>d st. EvBlockRead d st (blk_count dfu l) (blk_count dfu l) \<in> set (new_events s s')
                  \<or> EvBlockWrite d st (blk_count dfu l) (blk_count dfu l) \<in> set (new_events s s')))"
  using assms
  by (auto simp: block_op_defs Let_def EIO_def EINVAL_def split: if_splits option.splits prod.splits dfu_op.splits Option.bind_splits)

theorem mmc_block_op_short_transfer_witness:
  "mmc_block_op (demo_env (\<lambda>w. 0) (\<lambda>c. c - 1)) DFU_OP_WRITE demo_raw 0 demo_buf 1024 demo_sys
      = Some (- EIO, 1024, demo_buf, demo_sys\<lparr>world := 1, trace := [EvBlockWrite 0 100 2 1]\<rparr>)
   \<and> EvBlockWrite 0 100 2 1 \<in> set (new_events demo_sys (demo_sys\<lparr>world := 1, trace := [EvBlockWrite 0 100 2 1]\<rparr>))
   \<and> blk_count demo_raw 1024 = 2"
  using mmc_block_op_short_transfer [of "demo_env (\<lambda>w. 0) (\<lambda>c. c - 1)" DFU_OP_WRITE demo_raw 0 demo_buf 1024 demo_sys
     "- EIO" 1024 demo_buf "demo_sys\<lparr>world := 1, trace := [EvBlockWrite 0 100 2 1]\<rparr>"]
  by (simp add: block_op_defs demo_defs)

section \<open>Raw access: the length left in the out-parameter\<close>

lemma mmc_block_op_len:
  assumes "mmc_block_op e op dfu offset buf len s = Some (r, l, b, s')"
  shows "l = long_of (ALIGN len (lba_blk_size dfu))"
  using assms
  by (auto simp: block_op_defs Let_def split: if_splits option.splits prod.splits dfu_op.splits Option.bind_splits)

text \<open>
  C9. For a length that is a \<^verbatim>\<open>long\<close> and whose aligned value fits a \<^verbatim>\<open>long\<close>: whenever a
  raw access returns, \<^verbatim>\<open>*len\<close> holds the aligned length; in particular a call rejected by
  the range check returns \<open>-EINVAL\<close> with the aligned length in \<^verbatim>\<open>*len\<close> and with no event
  added to the trace.
\<close>

theorem mmc_block_op_len_aligned:
  assumes "- (2 ^ 31) \<le> len" and "ALIGN len (lba_blk_size dfu) < 2 ^ 31"
  shows "(\<forall>r l b s'. mmc_block_op e op dfu offset buf len s = Some (r, l, b, s') \<longrightarrow> l = ALIGN len (lba_blk_size dfu))
   \<and> (lba_blk_size dfu \<noteq> 0
        \<and> blk_start dfu offset + blk_count dfu (ALIGN len (lba_blk_size dfu)) > lba_start dfu + lba_size dfu
      \<longrightarrow> (\<exists>b s'. mmc_block_op e op dfu offset buf len s = Some (- EINVAL, ALIGN len (lba_blk_size dfu), b, s')
                  \<and> new_events s s' = []))"
proof (cases "lba_blk_size dfu = 0")
  case True
  then have "mmc_block_op e op dfu offset buf len s = None"
    by (simp add: mmc_block_op_def)
  with True show ?thesis by simp
next
  case False
  have "len \<le> ALIGN len (lba_blk_size dfu)" using False by (rule ALIGN_ge)
  then have fits: "long_of (ALIGN len (lba_blk_size dfu)) = ALIGN len (lba_blk_size dfu)"
    using assms by (intro long_of_id) simp_all
  show ?thesis
  proof (intro conjI allI impI)
    fix r l b s'
    assume "mmc_block_op e op dfu offset buf len s = Some (r, l, b, s')"
    then have "l = long_of (ALIGN len (lba_blk_size dfu))" by (rule mmc_block_op_len)
    then show "l = ALIGN len (lba_blk_size dfu)" using fits by simp
  next
    assume "lba_blk_size dfu \<noteq> 0
          \<and> blk_start dfu offset + blk_count dfu (ALIGN len (lba_blk_size dfu)) > lba_start dfu + lba_size dfu"
    then have "mmc_block_op e op dfu offset buf len s
                 = Some (- EINVAL, long_of (ALIGN len (lba_blk_size dfu)), buf, s)"
      by (simp add: mmc_block_op_range_check)
    then show "\<exists>b s'. mmc_block_op e op dfu offset buf len s = Some (- EINVAL, ALIGN len (lba_blk_size dfu), b, s')
                    \<and> new_events s s' = []"
      using fits by (simp add: new_events_def)
  qed
qed

theorem mmc_block_op_len_aligned_witness:
  "- (2 ^ 31) \<le> (1::int)
   \<and> ALIGN 1 (lba_blk_size demo_raw) < 2 ^ 31
   \<and> mmc_block_op (demo_env (\<lambda>w. 0) id) DFU_OP_READ demo_raw (50 * 512) demo_buf 1 demo_sys = Some (- EINVAL, 512, demo_buf, demo_sys)
   \<and> ALIGN 1 (lba_blk_size demo_raw) = 512
   \<and> lba_blk_size demo_raw \<noteq> 0
   \<and> blk_start demo_raw (50 * 512) + blk_count demo_raw (ALIGN 1 (lba_blk_size demo_raw)) > lba_start demo_raw + lba_size demo_raw"
  using mmc_block_op_len_aligned [of 1 demo_raw "demo_env (\<lambda>w. 0) id" DFU_OP_READ "50 * 512" demo_buf demo_sys]
  by (simp add: block_op_defs demo_defs)

text \<open>
  Without the bound the out-parameter cannot hold the aligned length: for a length of
  \<open>2^31 - 1\<close> and blocks of 512 bytes the aligned length is \<open>2^31\<close>, and \<^verbatim>\<open>*len\<close> is left at
  \<open>-2^31\<close>.
\<close>

lemma mmc_block_op_len_wraps:
  "mmc_block_op (demo_env (\<lambda>w. 0) id) DFU_OP_READ demo_raw 0 demo_buf 2147483647 demo_sys
     = Some (- EINVAL, - 2147483648, demo_buf, demo_sys)
   \<and> ALIGN 2147483647 (lba_blk_size demo_raw) = 2147483648"
  by (simp add: block_op_defs demo_defs)

section \<open>Switching to the partition that is already active\<close>

text \<open>
  C10. A request to switch to the partition recorded as active returns 0 and leaves the
  state as it is, so the switch capability is not called; and a raw access whose
  \<open>hw_partition\<close> is the partition recorded as active adds no partition-switch event to
  the trace, neither for the switch nor for the restore.
\<close>

theorem mmc_access_part_same_partition:
  assumes "find_mmc_device s (dev_num dfu) = Some m"
  shows "mmc_access_part e dfu (part_num m) s = Some (0, s)
     \<and> (\<forall>r l b s'. hw_partition dfu = part_num m
            \<and> mmc_block_op e op dfu offset buf len s = Some (r, l, b, s')
          \<longrightarrow> (\<forall>d p ret. EvSwitchPart d p ret \<notin> set (new_events s s')))"
  using assms
  by (auto simp: block_op_defs Let_def split: if_splits option.splits prod.splits dfu_op.splits Option.bind_splits)

theorem mmc_access_part_same_partition_witness:
  "find_mmc_device demo_sys (dev_num (demo_raw\<lparr>hw_partition := 0\<rparr>)) = Some \<lparr>part_num = 0, read_bl_len = 512\<rparr>
   \<and> mmc_access_part (demo_env (\<lambda>w. - 1) id) (demo_raw\<lparr>hw_partition := 0\<rparr>) 0 demo_sys = Some (0, demo_sys)
   \<and> hw_partition (demo_raw\<lparr>hw_partition := 0\<rparr>) = part_num \<lparr>part_num = 0, read_bl_len = 512\<rparr>
   \<and> mmc_block_op (demo_env (\<lambda>w. - 1) id) DFU_OP_WRITE (demo_raw\<lparr>hw_partition := 0\<rparr>) 0 demo_buf 512 demo_sys
        = Some (0, 512, demo_buf, demo_sys\<lparr>world := 1, trace := [EvBlockWrite 0 100 1 1]\<rparr>)"
  using mmc_access_part_same_partition [of demo_sys "demo_raw\<lparr>hw_partition := 0\<rparr>" "\<lparr>part_num = 0, read_bl_len = 512\<rparr>"
      "demo_env (\<lambda>w. - 1) id" DFU_OP_WRITE 0 demo_buf 512]
  by (simp add: block_op_defs demo_defs)

section \<open>The staging buffer\<close>

text \<open>
  What holds of an append whose sum fits a \<^verbatim>\<open>long\<close>. When the current length plus the
  number of bytes exceeds the capacity \<^verbatim>\<open>CONFIG_SYS_DFU_MAX_FILE_SIZE\<close>, the append returns
  \<open>-EINVAL\<close>, the length becomes 0 and the buffer's bytes are untouched; otherwise it
  returns 0, the bytes stand in the buffer from the old length on and the length has
  advanced by their number.
\<close>

lemma mmc_file_buffer_append:
  assumes "0 \<le> dfu_file_buf_len s"
    and "dfu_file_buf_len s + int (length (buf_data buf)) < 2 ^ 31"
  shows "mmc_file_buffer e dfu buf (int (length (buf_data buf))) s
     = (if dfu_file_buf_len s + int (length (buf_data buf)) > int (CONFIG_SYS_DFU_MAX_FILE_SIZE e)
        then Some (- EINVAL, s\<lparr>dfu_file_buf_len := 0\<rparr>)
        else Some (0, s\<lparr>dfu_file_buf :=
                          take (nat (dfu_file_buf_len s)) (dfu_file_buf s) @ buf_data buf
                            @ drop (nat (dfu_file_buf_len s) + length (buf_data buf)) (dfu_file_buf s),
                        dfu_file_buf_len := dfu_file_buf_len s + int (length (buf_data buf))\<rparr>))"
proof -
  have "long_of (dfu_file_buf_len s + int (length (buf_data buf)))
          = dfu_file_buf_len s + int (length (buf_data buf))"
    using assms by (intro long_of_id) simp_all
  then show ?thesis
    using assms(1) by (simp add: mmc_file_buffer_def memcpy_def)
qed

text \<open>After every append that returns, the length is at most the capacity.\<close>

lemma mmc_file_buffer_length_bound:
  assumes "mmc_file_buffer e dfu buf len s = Some (r, s')"
  shows "dfu_file_buf_len s' \<le> int (CONFIG_SYS_DFU_MAX_FILE_SIZE e)"
  using assms by (auto simp: mmc_file_buffer_def split: if_splits)

text \<open>
  C4 at an input whose sum leaves the \<^verbatim>\<open>long\<close>. The staging buffer of 8 bytes holds 5,
  and 2147483647 more are to be appended: the current length plus the number of bytes
  exceeds the capacity. The source adds the two as \<^verbatim>\<open>long\<close>, gets \<open>-2147483644\<close>, finds it
  not greater than the capacity and goes on to the \<^verbatim>\<open>memcpy\<close>, which runs past the end of
  \<^verbatim>\<open>dfu_file_buf\<close>: the append does not return \<open>-EINVAL\<close>, whatever \<open>buf\<close> holds.
\<close>

theorem mmc_file_buffer_sum_wraps:
  "mmc_file_buffer (demo_env (\<lambda>w. 0) id) dfu buf 2147483647 (demo_sys\<lparr>dfu_file_buf_len := 5\<rparr>) = None
   \<and> int (CONFIG_SYS_DFU_MAX_FILE_SIZE (demo_env (\<lambda>w. 0) id)) < 5 + 2147483647
   \<and> long_of (5 + 2147483647) = - 2147483644"
  by (simp add: mmc_file_buffer_def demo_defs)

section \<open>Flushing\<close>

text \<open>
  C6. A flush of an entity whose layout is not raw leaves the staging length at 0; for a
  FAT or ext4 entity it runs one command, the filesystem write, and returns that
  command's result, be it success or failure. A flush of a raw entity returns 0 and
  leaves the state as it is: no capability is called.
\<close>

theorem dfu_flush_medium_mmc_resets:
  "(layout dfu \<noteq> DFU_RAW_ADDR \<longrightarrow> dfu_file_buf_len (snd (dfu_flush_medium_mmc e dfu s)) = 0)
   \<and> (layout dfu = DFU_FS_FAT \<or> layout dfu = DFU_FS_EXT4 \<longrightarrow>
        (\<exists>cmd. new_events s (snd (dfu_flush_medium_mmc e dfu s))
                  = [EvRunCommand cmd (fst (run_command e cmd (world s)))]
              \<and> fst (dfu_flush_medium_mmc e dfu s) = fst (run_command e cmd (world s))))
   \<and> (layout dfu = DFU_RAW_ADDR \<longrightarrow> dfu_flush_medium_mmc e dfu s = (0, s))"
proof (cases "layout dfu")
  case DFU_RAW_ADDR
  then show ?thesis by (simp add: dfu_flush_medium_mmc_def)
next
  case DFU_FS_FAT
  then show ?thesis
    by (auto simp: dfu_flush_medium_mmc_def mmc_file_op_def new_events_def Let_def
        split: prod.splits)
next
  case DFU_FS_EXT4
  then show ?thesis
    by (auto simp: dfu_flush_medium_mmc_def mmc_file_op_def new_events_def Let_def
        split: prod.splits)
next
  case DFU_LAYOUT_OTHER
  then show ?thesis by (simp add: dfu_flush_medium_mmc_def mmc_file_op_def)
qed

theorem dfu_flush_medium_mmc_resets_witness:
  "dfu_flush_medium_mmc ((demo_env (\<lambda>w. 0) id)\<lparr>run_command := (\<lambda>c w. (1, Suc w))\<rparr>) demo_fat (demo_sys\<lparr>dfu_file_buf_len := 5\<rparr>)
     = (1, demo_sys\<lparr>dfu_file_buf_len := 0, world := 1, trace := [EvRunCommand ''fatwrite mmc 0:1 0x1000 u-boot 5'' 1]\<rparr>)
   \<and> dfu_flush_medium_mmc (demo_env (\<lambda>w. 0) id) demo_fat (demo_sys\<lparr>dfu_file_buf_len := 5\<rparr>)
     = (0, demo_sys\<lparr>dfu_file_buf_len := 0, world := 1, trace := [EvRunCommand ''fatwrite mmc 0:1 0x1000 u-boot 5'' 0]\<rparr>)
   \<and> dfu_flush_medium_mmc (demo_env (\<lambda>w. 0) id) demo_raw (demo_sys\<lparr>dfu_file_buf_len := 5\<rparr>)
     = (0, demo_sys\<lparr>dfu_file_buf_len := 5\<rparr>)"
  using dfu_flush_medium_mmc_resets [of demo_fat "(demo_env (\<lambda>w. 0) id)\<lparr>run_command := (\<lambda>c w. (1, Suc w))\<rparr>" "demo_sys\<lparr>dfu_file_buf_len := 5\<rparr>"]
  by (simp add: demo_defs demo_fat_def dfu_flush_medium_mmc_def mmc_file_op_def fmt_d_def fmt_x_def
        dec_digits.simps hex_digits.simps digit_char_def)

section \<open>Descriptors\<close>

text \<open>
  C7. On a device that is found and initialises, \<open>"raw 100 50"\<close> gives a raw entity with
  \<open>lba_start = 100\<close>, \<open>lba_size = 50\<close>, the device's read block length as block size
  and \<open>hw_partition = -EINVAL\<close>, which is negative: no hardware partition is selected;
  \<open>"raw 100 50 mmcpart 2"\<close> gives the same with \<open>hw_partition = 2\<close>; \<open>"fat 0 1"\<close> gives a
  FAT entity with device 0 and partition 1.
\<close>

theorem dfu_fill_entity_mmc_examples:
  assumes "find_mmc_device s (dev_num dfu) = Some m"
    and "mmc_init e (dev_num dfu) m (world s) = ((0, m'), w)"
  shows "dfu_fill_entity_mmc e dfu ''raw 100 50'' s
           = Some (0, dfu\<lparr>layout := DFU_RAW_ADDR, lba_start := 100, lba_size := 50,
                           lba_blk_size := read_bl_len m', hw_partition := - EINVAL,
                           dev_type := DFU_DEV_MMC, inited := 0\<rparr>,
                   s\<lparr>mmcs := (mmcs s)(dev_num dfu \<mapsto> m'), world := w,
                     trace := trace s @ [EvMmcInit (dev_num dfu) 0]\<rparr>)
       \<and> dfu_fill_entity_mmc e dfu ''raw 100 50 mmcpart 2'' s
           = Some (0, dfu\<lparr>layout := DFU_RAW_ADDR, lba_start := 100, lba_size := 50,
                           lba_blk_size := read_bl_len m', hw_partition := 2,
                           dev_type := DFU_DEV_MMC, inited := 0\<rparr>,
                   s\<lparr>mmcs := (mmcs s)(dev_num dfu \<mapsto> m'), world := w,
                     trace := trace s @ [EvMmcInit (dev_num dfu) 0]\<rparr>)
       \<and> dfu_fill_entity_mmc e dfu ''fat 0 1'' s
           = Some (0, dfu\<lparr>layout := DFU_FS_FAT, hw_partition := - EINVAL, mmc_dev := 0, mmc_part := 1,
                           dev_type := DFU_DEV_MMC, inited := 0\<rparr>,
                   s\<lparr>mmcs := (mmcs s)(dev_num dfu \<mapsto> m'), world := w,
                     trace := trace s @ [EvMmcInit (dev_num dfu) 0]\<rparr>)"
  using assms
  by (simp add: parse_defs)

theorem dfu_fill_entity_mmc_examples_witness:
  "find_mmc_device demo_sys (dev_num demo_blank) = Some \<lparr>part_num = 0, read_bl_len = 512\<rparr>
   \<and> mmc_init (demo_env (\<lambda>w. 0) id) (dev_num demo_blank) \<lparr>part_num = 0, read_bl_len = 512\<rparr> (world demo_sys)
        = ((0, \<lparr>part_num = 0, read_bl_len = 512\<rparr>), 1)
   \<and> map_option (\<lambda>(r, d, s'). (r, layout d, lba_start d, lba_size d, lba_blk_size d, hw_partition d))
        (dfu_fill_entity_mmc (demo_env (\<lambda>w. 0) id) demo_blank ''raw 100 50'' demo_sys)
        = Some (0, DFU_RAW_ADDR, 100, 50, 512, - 22)
   \<and> map_option (\<lambda>(r, d, s'). (r, layout d, lba_start d, lba_size d, lba_blk_size d, hw_partition d))
        (dfu_fill_entity_mmc (demo_env (\<lambda>w. 0) id) demo_blank ''raw 100 50 mmcpart 2'' demo_sys)
        = Some (0, DFU_RAW_ADDR, 100, 50, 512, 2)
   \<and> map_option (\<lambda>(r, d, s'). (r, layout d, mmc_dev d, mmc_part d))
        (dfu_fill_entity_mmc (demo_env (\<lambda>w. 0) id) demo_blank ''fat 0 1'' demo_sys)
        = Some (0, DFU_FS_FAT, 0, 1)"
  using dfu_fill_entity_mmc_examples [of demo_sys demo_blank "\<lparr>part_num = 0, read_bl_len = 512\<rparr>"
      "demo_env (\<lambda>w. 0) id" "\<lparr>part_num = 0, read_bl_len = 512\<rparr>" 1]
  by (simp add: demo_defs find_mmc_device_def)

lemma strsep_space_None:
  "snd (strsep (Some str) '' '') = None \<longleftrightarrow> count_list str CHR '' '' = 0"
  by (induction str) (auto simp: strsep_def split: list.splits)

lemma strsep_space_Some:
  "snd (strsep (Some str) '' '') = Some rest \<Longrightarrow> count_list str CHR '' '' = Suc (count_list rest CHR '' '')"
  by (induction str) (auto simp: strsep_def split: list.splits if_splits)

lemma strsep_space_token:
  "fst (strsep (Some str) '' '') = Some (takeWhile (\<lambda>c. c \<noteq> CHR '' '') str)"
  by (simp add: strsep_def)

lemma fill_argv_None_iff:
  "fill_argv (Suc k) (Some str) = None \<longleftrightarrow> count_list str CHR '' '' < k"
proof (induction k arbitrary: str)
  case 0
  show ?case using strsep_space_token [of str]
    by (cases "strsep (Some str) '' ''") (auto)
next
  case (Suc k)
  obtain sp where sep: "strsep (Some str) '' '' = (Some (takeWhile (\<lambda>c. c \<noteq> CHR '' '') str), sp)"
    using strsep_space_token [of str] by (cases "strsep (Some str) '' ''") auto
  show ?case
  proof (cases sp)
    case None
    then have "count_list str CHR '' '' = 0" using strsep_space_None [of str] sep by simp
    then show ?thesis using sep None by (simp add: strsep_def)
  next
    case (Some rest)
    then have c: "count_list str CHR '' '' = Suc (count_list rest CHR '' '')"
      using strsep_space_Some [of str rest] sep by simp
    have "fill_argv (Suc (Suc k)) (Some str) = None \<longleftrightarrow> fill_argv (Suc k) (Some rest) = None"
      using sep Some by (auto simp del: fill_argv.simps simp add: fill_argv.simps(2) [of "Suc k"] split: option.splits)
    then show ?thesis using Suc.IH [of rest] c by simp
  qed
qed

lemma fill_argv_first:
  "fill_argv (Suc k) (Some str) = Some (argv, sp) \<Longrightarrow> argv ! 0 = takeWhile (\<lambda>c. c \<noteq> CHR '' '') str"
  using strsep_space_token [of str]
  by (cases "strsep (Some str) '' ''") (auto split: option.splits)

text \<open>
  C8, as the code has it. The parser splits at single space characters, so an empty
  field between two spaces counts. A descriptor with fewer than two spaces has fewer than
  three fields and is rejected with \<open>-ENODEV\<close>, the entity and the state untouched; a
  descriptor whose first field is none of \<open>raw\<close>, \<open>part\<close>, \<open>fat\<close>, \<open>ext4\<close> is rejected with
  \<open>-ENODEV\<close> as well, which is the code this function returns for every failure.
\<close>

theorem dfu_fill_entity_mmc_rejects:
  "(count_list str CHR '' '' < 2 \<longrightarrow> dfu_fill_entity_mmc e dfu str s = Some (- ENODEV, dfu, s))
   \<and> (takeWhile (\<lambda>c. c \<noteq> CHR '' '') str \<notin> {''raw'', ''part'', ''fat'', ''ext4''}
        \<longrightarrow> (\<exists>dfu' s'. dfu_fill_entity_mmc e dfu str s = Some (- ENODEV, dfu', s')))"
proof (intro conjI impI)
  assume "count_list str CHR '' '' < 2"
  then have "fill_argv 3 (Some str) = None"
    using fill_argv_None_iff [of 2 str] by (simp add: numeral_3_eq_3)
  then show "dfu_fill_entity_mmc e dfu str s = Some (- ENODEV, dfu, s)"
    by (simp add: dfu_fill_entity_mmc_def)
next
  assume other: "takeWhile (\<lambda>c. c \<noteq> CHR '' '') str \<notin> {''raw'', ''part'', ''fat'', ''ext4''}"
  show "\<exists>dfu' s'. dfu_fill_entity_mmc e dfu str s = Some (- ENODEV, dfu', s')"
  proof (cases "fill_argv 3 (Some str)")
    case None
    then show ?thesis by (simp add: dfu_fill_entity_mmc_def)
  next
    case (Some a)
    obtain argv sp where a: "a = (argv, sp)" by (cases a)
    have first: "argv ! 0 = takeWhile (\<lambda>c. c \<noteq> CHR '' '') str"
      using fill_argv_first [of 2 str argv sp] Some a by (simp add: numeral_3_eq_3)
    show ?thesis
      using Some a first other
      by (auto simp: dfu_fill_entity_mmc_def Let_def simp del: fill_argv.simps split: option.splits prod.splits)
  qed
qed

theorem dfu_fill_entity_mmc_rejects_witness:
  "count_list ''raw 100'' CHR '' '' < 2
   \<and> dfu_fill_entity_mmc (demo_env (\<lambda>w. 0) id) demo_blank ''raw 100'' demo_sys = Some (- 19, demo_blank, demo_sys)
   \<and> takeWhile (\<lambda>c. c \<noteq> CHR '' '') ''xyz 1 2'' \<notin> {''raw'', ''part'', ''fat'', ''ext4''}
   \<and> (\<exists>dfu' s'. dfu_fill_entity_mmc (demo_env (\<lambda>w. 0) id) demo_blank ''xyz 1 2'' demo_sys = Some (- 19, dfu', s'))"
  using dfu_fill_entity_mmc_rejects [of "''raw 100''" "demo_env (\<lambda>w. 0) id" demo_blank demo_sys]
    dfu_fill_entity_mmc_rejects [of "''xyz 1 2''" "demo_env (\<lambda>w. 0) id" demo_blank demo_sys]
  by (simp add: ENODEV_def)

text \<open>
  C8 as stated fails for \<open>"raw  100"\<close>, with two spaces: it has two whitespace-separated
  tokens, and the parser accepts it, reading the empty second field as 0.
\<close>

theorem dfu_fill_entity_mmc_empty_field:
  "length (spec_tokens ''raw  100'') = 2
   \<and> dfu_fill_entity_mmc (demo_env (\<lambda>w. 0) id) demo_blank ''raw  100'' demo_sys
       = Some (0, demo_blank\<lparr>layout := DFU_RAW_ADDR, lba_start := 0, lba_size := 100,
                            lba_blk_size := 512, hw_partition := - 22,
                            dev_type := DFU_DEV_MMC, inited := 0\<rparr>,
               demo_sys\<lparr>world := 1, trace := [EvMmcInit 0 0]\<rparr>)"
  apply (simp add: parse_defs demo_defs find_mmc_device_def spec_tokens_def is_space_def)
  apply (rule ext)
  apply simp
  done

end
